theory Spec2Isabelle
  imports Main
begin

section \<open>Python values\<close>

text \<open>
  A Python \<open>str\<close> is a sequence of Unicode code points, and \<open>len\<close> and slicing count code
  points, so a string is modelled as a list of code point numbers. \<open>py\<close> turns an ASCII
  literal of the source into such a list.
\<close>

type_synonym pystr = "nat list"

definition py :: "string \<Rightarrow> pystr" where
  "py s = map of_char s"

text \<open>
  Exceptions of class \<open>Exception\<close>. \<open>Raised msg\<close> is an exception raised by a collaborator
  (the operating system, the provider library, a response object, \<open>print\<close>), \<open>msg\<close> being
  its \<open>str(e)\<close>. The others are raised by the interpreter and the standard library in the
  code modelled below; their messages are fixed ASCII text, but for two: the \<open>TypeError\<close>
  of a call with an unexpected keyword quotes the keyword, as it is, in its message
  (\<open>KeywordTypeError k\<close>), and the \<open>UnicodeEncodeError\<close> of the UTF-8 encoder names the
  character it rejects in escaped form. Signals outside \<open>Exception\<close>
  (\<open>KeyboardInterrupt\<close>, \<open>SystemExit\<close>) are not modelled.
\<close>

datatype exn =
    TypeError
  | KeywordTypeError pystr
  | AttributeError
  | JSONDecodeError
  | IndexError
  | UnicodeEncodeError
  | Raised pystr

text \<open>
  What \<open>json.load\<close> returns and \<open>json.dump\<close> accepts. A \<open>dict\<close> is the list of its items
  in insertion order; a lookup takes the first binding of the key. Numbers are never
  inspected by the code, so one constructor stands for \<open>int\<close> and \<open>float\<close>. Python's
  \<open>None\<close> is \<open>JNull\<close>.
\<close>

datatype json =
    JNull
  | JBool bool
  | JNum int
  | JStr pystr
  | JArr "json list"
  | JObj "(pystr \<times> json) list"

subsection \<open>Data models (lines 14-23)\<close>

text \<open>
  The dataclasses declare \<open>str\<close> fields, but a dataclass does not check its annotations:
  \<open>load_conversations\<close> stores whatever the file holds, \<open>None\<close> included. The fields are
  therefore JSON values.
\<close>

record message =
  role :: json
  content :: json

record conversation =
  cid :: json
  title :: json
  messages :: "message list"

section \<open>Storage helpers\<close>

text \<open>
  The data file \<open>conversations.json\<close>: absent, holding a complete JSON document, or
  holding text that \<open>json.load\<close> rejects (an empty file and a strict prefix of a document
  are of this kind).
\<close>

datatype file_state = Missing | Document json | Invalid

text \<open>What the code prints.\<close>

datatype report =
    ErrorLoading exn
  | ErrorSaving exn
  | StreamingFailed pystr exn

text \<open>What the operating system does when the file is opened and read.\<close>

datatype read_outcome = ReadOk | ReadRaises exn

text \<open>
  The outcome of a write: the write completes; \<open>open\<close> raises before the file is
  touched; or \<open>open(..., "w")\<close> has truncated the file and \<open>json.dump\<close>, which streams
  the document into it piece by piece, is cut short by an exception.
\<close>

datatype write_outcome = WriteOk | OpenRaises exn | DumpRaises exn

subsection \<open>Python operations on loaded JSON values\<close>

text \<open>\<open>for x in v\<close>: a list yields its elements, a dict its keys, a string its characters.\<close>

fun py_iter_json :: "json \<Rightarrow> exn + json list" where
  "py_iter_json (JArr xs) = Inr xs"
| "py_iter_json (JObj kvs) = Inr (map (\<lambda>kv. JStr (fst kv)) kvs)"
| "py_iter_json (JStr s) = Inr (map (\<lambda>c. JStr [c]) s)"
| "py_iter_json _ = Inl TypeError"

text \<open>\<open>c.get(k, d)\<close>: only a dict has the method.\<close>

fun py_get :: "json \<Rightarrow> pystr \<Rightarrow> json \<Rightarrow> exn + json" where
  "py_get (JObj kvs) k d = Inr (case map_of kvs k of None \<Rightarrow> d | Some v \<Rightarrow> v)"
| "py_get _ k d = Inl AttributeError"

text \<open>
  \<open>Message(**m)\<close>: \<open>m\<close> must be a mapping whose keys are exactly the two fields. The
  keywords are matched first, in the order of the dict: the first one that is no field
  is a \<open>TypeError\<close> whose message quotes it. A missing field is a \<open>TypeError\<close> too.
\<close>

fun Message_kwargs :: "json \<Rightarrow> exn + message" where
  "Message_kwargs (JObj kvs) =
     (case find (\<lambda>kv. fst kv \<noteq> py ''role'' \<and> fst kv \<noteq> py ''content'') kvs of
        Some kv \<Rightarrow> Inl (KeywordTypeError (fst kv))
      | None \<Rightarrow>
         (case map_of kvs (py ''role'') of
            None \<Rightarrow> Inl TypeError
          | Some r \<Rightarrow>
             (case map_of kvs (py ''content'') of
                None \<Rightarrow> Inl TypeError
              | Some c \<Rightarrow> Inr \<lparr>role = r, content = c\<rparr>)))"
| "Message_kwargs _ = Inl TypeError"

text \<open>The comprehension \<open>[Message(**m) for m in ...]\<close> over the items already drawn.\<close>

fun load_messages :: "json list \<Rightarrow> exn + message list" where
  "load_messages [] = Inr []"
| "load_messages (m # ms) =
     (case Message_kwargs m of
        Inl e \<Rightarrow> Inl e
      | Inr x \<Rightarrow> (case load_messages ms of Inl e \<Rightarrow> Inl e | Inr xs \<Rightarrow> Inr (x # xs)))"

text \<open>The constructor call of lines 36-40 for one record \<open>c\<close> of the file.\<close>

definition load_record :: "json \<Rightarrow> exn + conversation" where
  "load_record c =
     (case py_get c (py ''id'') JNull of
        Inl e \<Rightarrow> Inl e
      | Inr i \<Rightarrow>
         (case py_get c (py ''title'') JNull of
            Inl e \<Rightarrow> Inl e
          | Inr t \<Rightarrow>
             (case py_get c (py ''messages'') (JArr []) of
                Inl e \<Rightarrow> Inl e
              | Inr ms \<Rightarrow>
                 (case py_iter_json ms of
                    Inl e \<Rightarrow> Inl e
                  | Inr items \<Rightarrow>
                     (case load_messages items of
                        Inl e \<Rightarrow> Inl e
                      | Inr xs \<Rightarrow> Inr \<lparr>cid = i, title = t, messages = xs\<rparr>)))))"

text \<open>The loop of lines 34-41: \<open>convos\<close> grows at the end, the first exception leaves the loop.\<close>

fun load_records :: "json list \<Rightarrow> conversation list \<Rightarrow> exn + conversation list" where
  "load_records [] convos = Inr convos"
| "load_records (c # cs) convos =
     (case load_record c of
        Inl e \<Rightarrow> Inl e
      | Inr x \<Rightarrow> load_records cs (convos @ [x]))"

text \<open>The body of the \<open>try\<close> of lines 31-42.\<close>

definition load_body :: "read_outcome \<Rightarrow> file_state \<Rightarrow> exn + conversation list" where
  "load_body r f =
     (case r of
        ReadRaises e \<Rightarrow> Inl e
      | ReadOk \<Rightarrow>
         (case f of
            Missing \<Rightarrow> Inl (Raised (py ''FileNotFoundError''))
          | Invalid \<Rightarrow> Inl JSONDecodeError
          | Document data \<Rightarrow>
             (case py_iter_json data of
                Inl e \<Rightarrow> Inl e
              | Inr cs \<Rightarrow> load_records cs [])))"

text \<open>
  \<open>load_conversations\<close> (lines 27-45): the list that line 29, 42 or 45 returns, and the
  report that line 44 hands to \<open>print\<close> before line 45. What \<open>print\<close> does with the
  report is added by \<open>load_conversations_io\<close> below.
\<close>

definition load_conversations :: "read_outcome \<Rightarrow> file_state \<Rightarrow> conversation list \<times> report list" where
  "load_conversations r f =
     (if f = Missing then ([], [])
      else (case load_body r f of
              Inl e \<Rightarrow> ([], [ErrorLoading e])
            | Inr convos \<Rightarrow> (convos, [])))"

text \<open>
  The standard output of the process: \<open>out r\<close> is \<open>None\<close> when \<open>print\<close> writes the line of
  the report \<open>r\<close>, and \<open>Some msg\<close> when \<open>print\<close> raises an exception \<open>e\<close> with
  \<open>str(e) = msg\<close> instead, as it does when the text of the line has a character that the
  encoding of the stream rejects (with UTF-8, a lone surrogate code point).
\<close>

type_synonym stdout = "report \<Rightarrow> pystr option"

fun print_all :: "stdout \<Rightarrow> report list \<Rightarrow> pystr option" where
  "print_all out [] = None"
| "print_all out (r # rs) = (case out r of Some msg \<Rightarrow> Some msg | None \<Rightarrow> print_all out rs)"

text \<open>
  A call of \<open>load_conversations\<close> as a whole: line 44 is inside the \<open>except\<close> clause, so an
  exception of its \<open>print\<close> is caught by nothing and leaves the function.
\<close>

definition load_conversations_io ::
  "stdout \<Rightarrow> read_outcome \<Rightarrow> file_state \<Rightarrow> exn + conversation list" where
  "load_conversations_io out r f =
     (case load_conversations r f of
        (convos, reports) \<Rightarrow>
          (case print_all out reports of
             Some msg \<Rightarrow> Inl (Raised msg)
           | None \<Rightarrow> Inr convos))"

text \<open>\<open>asdict(m)\<close> and the document built by lines 50-53.\<close>

definition asdict :: "message \<Rightarrow> json" where
  "asdict m = JObj [(py ''role'', role m), (py ''content'', content m)]"

definition dump_record :: "conversation \<Rightarrow> json" where
  "dump_record c =
     JObj [(py ''id'', cid c), (py ''title'', title c),
           (py ''messages'', JArr (map asdict (messages c)))]"

definition dump_document :: "conversation list \<Rightarrow> json" where
  "dump_document convos = JArr (map dump_record convos)"

text \<open>
  \<open>save_conversations\<close> (lines 47-55), given the outcome of the write: the new state of
  the file and what is printed. The file is opened in mode \<open>"w"\<close> and written in place.
\<close>

definition save_conversations ::
  "write_outcome \<Rightarrow> conversation list \<Rightarrow> file_state \<Rightarrow> file_state \<times> report list" where
  "save_conversations w convos f =
     (case w of
        WriteOk \<Rightarrow> (Document (dump_document convos), [])
      | OpenRaises e \<Rightarrow> (f, [ErrorSaving e])
      | DumpRaises e \<Rightarrow> (Invalid, [ErrorSaving e]))"

text \<open>
  The file is opened with \<open>encoding="utf-8"\<close> and the document is dumped with
  \<open>ensure_ascii=False\<close>, so every string of the document, keys included, reaches the UTF-8
  encoder as it is. The encoder rejects the surrogate code points \<open>U+D800\<close> to \<open>U+DFFF\<close>.
\<close>

definition is_surrogate :: "nat \<Rightarrow> bool" where
  "is_surrogate c \<longleftrightarrow> 55296 \<le> c \<and> c \<le> 57343"

fun utf8_encodable :: "json \<Rightarrow> bool" where
  "utf8_encodable (JStr s) = (\<not> list_ex is_surrogate s)"
| "utf8_encodable (JArr xs) = list_all utf8_encodable xs"
| "utf8_encodable (JObj kvs) =
     list_all (\<lambda>kv. \<not> list_ex is_surrogate (fst kv) \<and> utf8_encodable (snd kv)) kvs"
| "utf8_encodable _ = True"

text \<open>
  The outcome of the write of a document, \<open>os\<close> being what the operating system does: a
  write that it would complete is cut short by a \<open>UnicodeEncodeError\<close> when the encoder
  rejects a string of the document.
\<close>

definition write_result :: "write_outcome \<Rightarrow> json \<Rightarrow> write_outcome" where
  "write_result os doc =
     (case os of
        WriteOk \<Rightarrow> if utf8_encodable doc then WriteOk else DumpRaises UnicodeEncodeError
      | OpenRaises e \<Rightarrow> OpenRaises e
      | DumpRaises e \<Rightarrow> DumpRaises e)"

text \<open>
  A call of \<open>save_conversations\<close> as a whole. The text printed at line 55 is the operating
  system's or the encoder's, which holds no character of the data as it is; its \<open>print\<close>
  is taken to succeed.
\<close>

definition save_conversations_io ::
  "write_outcome \<Rightarrow> conversation list \<Rightarrow> file_state \<Rightarrow> file_state \<times> report list" where
  "save_conversations_io os convos f =
     save_conversations (write_result os (dump_document convos)) convos f"

section \<open>Provider responses\<close>

text \<open>
  A value handed back by the provider library, seen through the four things the code asks
  of it: whether it is a \<open>str\<close>; what reading its attribute \<open>content\<close> does; whether
  it has \<open>__iter__\<close> and what iterating it yields; and what \<open>str(...)\<close> of it returns.
  Reading \<open>content\<close> gives the same outcome each time: the attribute is absent
  (\<open>hasattr\<close> is false), or it has a value, or the read raises an exception other than
  \<open>AttributeError\<close>, which \<open>hasattr\<close> lets through. An iteration yields finitely many
  chunks and then either stops or raises; the lookup of \<open>__iter__\<close> itself is taken not
  to raise.
\<close>

datatype 'a attr = NoAttr | HasAttr 'a | AttrRaises exn

datatype 'a iteration = NotIterable | Yields "'a list" "exn option"

datatype pyobj =
    PStr pystr
  | PObj "pyobj attr" "pyobj iteration" "exn + pystr"

text \<open>\<open>str(x)\<close>.\<close>

fun py_str :: "pyobj \<Rightarrow> exn + pystr" where
  "py_str (PStr s) = Inr s"
| "py_str (PObj a it r) = r"

text \<open>\<open>for chunk in x\<close>: the chunks drawn, and the exception that ends the loop, if any.\<close>

fun py_iter :: "pyobj \<Rightarrow> pyobj list \<times> exn option" where
  "py_iter (PStr s) = (map (\<lambda>c. PStr [c]) s, None)"
| "py_iter (PObj a NotIterable r) = ([], Some TypeError)"
| "py_iter (PObj a (Yields xs fin) r) = (xs, fin)"

text \<open>
  The three-way test on one chunk, written twice in the source (lines 147-152 and
  182-187): the value that is appended for the chunk. A chunk with a \<open>content\<close> attribute
  gives that attribute as it is, with no \<open>str(...)\<close> around it; any other chunk that is not
  a string gives \<open>str(chunk)\<close>, whether it is iterable or not.
\<close>

fun chunk_value :: "pyobj \<Rightarrow> exn + pyobj" where
  "chunk_value (PStr s) = Inr (PStr s)"
| "chunk_value (PObj (HasAttr v) it r) = Inr v"
| "chunk_value (PObj (AttrRaises e) it r) = Inl e"
| "chunk_value (PObj NoAttr it r) = (case r of Inl e \<Rightarrow> Inl e | Inr s \<Rightarrow> Inr (PStr s))"

text \<open>The loop of lines 146-152 filling \<open>chunks\<close>.\<close>

fun collect_chunks :: "pyobj list \<Rightarrow> exn option \<Rightarrow> pyobj list \<Rightarrow> exn + pyobj list" where
  "collect_chunks [] fin chunks = (case fin of None \<Rightarrow> Inr chunks | Some e \<Rightarrow> Inl e)"
| "collect_chunks (c # cs) fin chunks =
     (case chunk_value c of
        Inl e \<Rightarrow> Inl e
      | Inr v \<Rightarrow> collect_chunks cs fin (chunks @ [v]))"

text \<open>\<open>"".join(chunks)\<close>: every item must be a \<open>str\<close>.\<close>

fun py_join :: "pyobj list \<Rightarrow> exn + pystr" where
  "py_join [] = Inr []"
| "py_join (PStr s # vs) = (case py_join vs of Inl e \<Rightarrow> Inl e | Inr t \<Rightarrow> Inr (s @ t))"
| "py_join (PObj a it r # vs) = Inl TypeError"

text \<open>The body of the \<open>try\<close> of lines 139-155.\<close>

fun extract_body :: "pyobj \<Rightarrow> exn + pystr" where
  "extract_body (PStr s) = Inr s"
| "extract_body (PObj (HasAttr v) it r) = py_str v"
| "extract_body (PObj (AttrRaises e) it r) = Inl e"
| "extract_body (PObj NoAttr (Yields xs fin) r) =
     (case collect_chunks xs fin [] of Inl e \<Rightarrow> Inl e | Inr chunks \<Rightarrow> py_join chunks)"
| "extract_body (PObj NoAttr NotIterable r) = r"

definition parse_error :: pystr where
  "parse_error = py ''[Error: Could not parse response]''"

text \<open>\<open>extract_response_content\<close> (lines 136-157).\<close>

definition extract_response_content :: "pyobj \<Rightarrow> pystr" where
  "extract_response_content response =
     (case extract_body response of Inl e \<Rightarrow> parse_error | Inr s \<Rightarrow> s)"

section \<open>The application\<close>

definition DEFAULT_MODEL :: pystr where
  "DEFAULT_MODEL = py ''gpt-4o-mini''"

text \<open>
  The variables of \<open>main\<close> that the handlers read and write, the data file, and three
  traces: what was printed, the argument of every call of \<open>save_conversations\<close>, and the
  arguments (model, messages, stream) of every call of \<open>g4f.ChatCompletion.create\<close>.
  The widgets that only display are left out.
\<close>

record state =
  conversations :: "conversation list"
  selected_index :: nat
  input_value :: pystr
  model_value :: "pystr option"
  streaming :: bool
  data_file :: file_state
  printed :: "report list"
  save_calls :: "conversation list list"
  provider_calls :: "(pystr \<times> (json \<times> json) list \<times> bool) list"

text \<open>
  The collaborators: \<open>provider model messages stream\<close> is \<open>Inl msg\<close> when the call raises
  an exception \<open>e\<close> with \<open>str(e) = msg\<close>, and \<open>Inr response\<close> when it returns; \<open>disk n\<close> is
  what the operating system does on the write of the \<open>n\<close>-th save (counted from 0);
  \<open>stdout\<close> is the standard output.
\<close>

record env =
  provider :: "pystr \<Rightarrow> (json \<times> json) list \<Rightarrow> bool \<Rightarrow> pystr + pyobj"
  disk :: "nat \<Rightarrow> write_outcome"
  stdout :: stdout


text \<open>\<open>save_conversations(conversations)\<close> as a step of the application.\<close>

definition save :: "env \<Rightarrow> state \<Rightarrow> state" where
  "save ev st =
     (case save_conversations_io (disk ev (length (save_calls st))) (conversations st)
             (data_file st) of
        (f, out) \<Rightarrow>
          st\<lparr>data_file := f,
             printed := printed st @ out,
             save_calls := save_calls st @ [conversations st]\<rparr>)"

text \<open>
  \<open>conv.messages.append(m)\<close> with \<open>conv = conversations[selected_index]\<close>: the list object
  is shared, so the conversation inside \<open>conversations\<close> changes.
\<close>

definition append_message :: "message \<Rightarrow> state \<Rightarrow> state" where
  "append_message m st =
     (let conv = conversations st ! selected_index st
      in st\<lparr>conversations :=
              (conversations st)[selected_index st := conv\<lparr>messages := messages conv @ [m]\<rparr>]\<rparr>)"

text \<open>The \<open>messages\<close> argument of the provider call.\<close>

definition payload :: "conversation \<Rightarrow> (json \<times> json) list" where
  "payload conv = map (\<lambda>m. (role m, content m)) (messages conv)"

text \<open>
  The loop of lines 181-189 over the chunks of a streamed response: the text accumulated
  and the exception that left the loop, if any. \<open>+=\<close> of a non-string onto a string is a
  \<open>TypeError\<close>.
\<close>

fun stream_chunks :: "pyobj list \<Rightarrow> exn option \<Rightarrow> pystr \<Rightarrow> pystr \<times> exn option" where
  "stream_chunks [] fin acc = (acc, fin)"
| "stream_chunks (c # cs) fin acc =
     (case chunk_value c of
        Inl e \<Rightarrow> (acc, Some e)
      | Inr (PStr s) \<Rightarrow> stream_chunks cs fin (acc @ s)
      | Inr (PObj a it r) \<Rightarrow> (acc, Some TypeError))"

text \<open>Lines 176-189: the streaming call and its loop.\<close>

definition streaming_call ::
  "env \<Rightarrow> pystr \<Rightarrow> (json \<times> json) list \<Rightarrow> state \<Rightarrow> (pystr \<times> exn option) \<times> state" where
  "streaming_call ev model msgs st =
     ((case provider ev model msgs True of
         Inl msg \<Rightarrow> ([], Some (Raised msg))
       | Inr response \<Rightarrow> (case py_iter response of (xs, fin) \<Rightarrow> stream_chunks xs fin [])),
      st\<lparr>provider_calls := provider_calls st @ [(model, msgs, True)]\<rparr>)"

text \<open>
  Lines 193-198 and, the same statements, lines 203-208: one call with \<open>stream=False\<close>.
  \<open>Inl (acc, msg)\<close>: an exception \<open>e\<close> with \<open>str(e) = msg\<close> goes to the outer handler,
  \<open>assistant_msg_content\<close> still being \<open>acc\<close>; \<open>Inr text\<close>: the new
  \<open>assistant_msg_content\<close>.
\<close>

definition non_streaming_call ::
  "env \<Rightarrow> pystr \<Rightarrow> (json \<times> json) list \<Rightarrow> pystr \<Rightarrow> state \<Rightarrow> ((pystr \<times> pystr) + pystr) \<times> state" where
  "non_streaming_call ev model msgs acc st =
     ((case provider ev model msgs False of
         Inl msg \<Rightarrow> Inl (acc, msg)
       | Inr response \<Rightarrow> Inr (extract_response_content response)),
      st\<lparr>provider_calls := provider_calls st @ [(model, msgs, False)]\<rparr>)"

text \<open>
  Lines 174-210, the inside of the outer \<open>try\<close> up to the final append. The \<open>print\<close> of
  line 191 comes before the retry of line 193 and is guarded by nothing but the outer
  \<open>try\<close>: when it raises, no retry is made and its exception is the one that the outer
  handler receives, \<open>assistant_msg_content\<close> being what the loop had accumulated.
\<close>

definition attempt ::
  "env \<Rightarrow> pystr \<Rightarrow> (json \<times> json) list \<Rightarrow> state \<Rightarrow> ((pystr \<times> pystr) + pystr) \<times> state" where
  "attempt ev model msgs st =
     (if streaming st then
        (case streaming_call ev model msgs st of
           ((acc, None), st') \<Rightarrow> (Inr acc, st')
         | ((acc, Some e), st') \<Rightarrow>
             (case stdout ev (StreamingFailed model e) of
                Some msg \<Rightarrow> (Inl (acc, msg), st')
              | None \<Rightarrow>
                  non_streaming_call ev model msgs acc
                    (st'\<lparr>printed := printed st' @ [StreamingFailed model e]\<rparr>)))
      else non_streaming_call ev model msgs [] st)"

text \<open>Line 217.\<close>

definition error_text :: "pystr \<Rightarrow> pystr \<Rightarrow> pystr" where
  "error_text model msg =
     py ''[Error: Cannot get response from '' @ [39] @ model @ [39] @ py ''. '' @ msg @ py '']''"

text \<open>
  \<open>stream_response\<close> (lines 159-222). Indexing \<open>conversations\<close> out of range raises
  \<open>IndexError\<close> before the \<open>try\<close>.
\<close>

definition stream_response :: "env \<Rightarrow> pystr \<Rightarrow> state \<Rightarrow> exn + state" where
  "stream_response ev prompt st =
     (if selected_index st < length (conversations st) then
        (let st1 = save ev (append_message \<lparr>role = JStr (py ''user''), content = JStr prompt\<rparr> st);
             model = (case model_value st1 of
                        None \<Rightarrow> DEFAULT_MODEL
                      | Some v \<Rightarrow> if v = [] then DEFAULT_MODEL else v);
             msgs = payload (conversations st1 ! selected_index st1)
         in (case attempt ev model msgs st1 of
               (Inr text, st2) \<Rightarrow>
                 Inr (save ev (append_message
                        \<lparr>role = JStr (py ''assistant''), content = JStr text\<rparr> st2))
             | (Inl (acc, msg), st2) \<Rightarrow>
                 Inr (save ev (append_message
                        \<lparr>role = JStr (py ''assistant''),
                         content = JStr (acc @ error_text model msg)\<rparr> st2))))
      else Inl IndexError)"

text \<open>The characters \<open>str.strip()\<close> removes: those for which \<open>str.isspace\<close> holds.\<close>

definition is_space :: "nat \<Rightarrow> bool" where
  "is_space c \<longleftrightarrow>
     (9 \<le> c \<and> c \<le> 13) \<or> (28 \<le> c \<and> c \<le> 32) \<or> c = 133 \<or> c = 160 \<or> c = 5760 \<or>
     (8192 \<le> c \<and> c \<le> 8202) \<or> c = 8232 \<or> c = 8233 \<or> c = 8239 \<or> c = 8287 \<or> c = 12288"

definition strip :: "pystr \<Rightarrow> pystr" where
  "strip s = rev (dropWhile is_space (rev (dropWhile is_space s)))"

text \<open>\<open>on_send_click\<close> (lines 224-236).\<close>

definition on_send_click :: "env \<Rightarrow> state \<Rightarrow> exn + state" where
  "on_send_click ev st =
     (let text = strip (input_value st) in
      if text = [] then Inr st
      else if selected_index st < length (conversations st) then
        (let conv = conversations st ! selected_index st;
             st1 = (if messages conv = []
                    then st\<lparr>conversations :=
                            (conversations st)[selected_index st :=
                               conv\<lparr>title := JStr (if length text > 30
                                                     then take 30 text @ py ''...''
                                                     else text)\<rparr>]\<rparr>
                    else st)
         in stream_response ev text (st1\<lparr>input_value := []\<rparr>))
      else Inl IndexError)"

section \<open>Properties of the storage helpers\<close>

lemma py_keys_distinct:
  "py ''role'' \<noteq> py ''content''" "py ''content'' \<noteq> py ''role''"
  "py ''id'' \<noteq> py ''title''" "py ''id'' \<noteq> py ''messages''"
  "py ''title'' \<noteq> py ''id''" "py ''title'' \<noteq> py ''messages''"
  "py ''messages'' \<noteq> py ''id''" "py ''messages'' \<noteq> py ''title''"
  by (simp_all add: py_def)

lemma Message_kwargs_asdict: "Message_kwargs (asdict m) = Inr m"
  by (simp add: asdict_def py_keys_distinct)

lemma load_messages_asdict: "load_messages (map asdict ms) = Inr ms"
  by (induction ms) (simp_all add: Message_kwargs_asdict)

lemma load_record_dump_record: "load_record (dump_record c) = Inr c"
  by (simp add: load_record_def dump_record_def py_keys_distinct load_messages_asdict)

lemma load_records_dump: "load_records (map dump_record cs) acc = Inr (acc @ cs)"
  by (induction cs arbitrary: acc) (simp_all add: load_record_dump_record)

lemma load_after_complete_save:
  "load_conversations ReadOk (fst (save_conversations WriteOk x f)) = (x, [])"
  by (simp add: load_conversations_def load_body_def save_conversations_def dump_document_def
      load_records_dump)


lemma Message_kwargs_extra_key:
  assumes "k \<in> set (map fst m)" "k \<noteq> py ''role''" "k \<noteq> py ''content''"
  shows "\<exists>k'. k' \<in> set (map fst m) \<and> k' \<noteq> py ''role'' \<and> k' \<noteq> py ''content''
           \<and> Message_kwargs (JObj m) = Inl (KeywordTypeError k')"
proof (cases "find (\<lambda>kv. fst kv \<noteq> py ''role'' \<and> fst kv \<noteq> py ''content'') m")
  case None
  with assms show ?thesis by (auto simp: find_None_iff)
next
  case (Some kv)
  then have "kv \<in> set m" "fst kv \<noteq> py ''role''" "fst kv \<noteq> py ''content''"
    by (auto simp: find_Some_iff)
  with Some show ?thesis by auto
qed





lemma load_conversations_io_cases:
  "load_conversations r f = (convos, []) \<Longrightarrow> load_conversations_io out r f = Inr convos"
  "load_conversations r f = (convos, [rep]) \<Longrightarrow>
   load_conversations_io out r f =
     (case out rep of None \<Rightarrow> Inr convos | Some msg \<Rightarrow> Inl (Raised msg))"
  by (simp_all add: load_conversations_io_def split: option.splits)


lemma keys_encodable:
  "\<not> list_ex is_surrogate (py ''id'')" "\<not> list_ex is_surrogate (py ''title'')"
  "\<not> list_ex is_surrogate (py ''messages'')" "\<not> list_ex is_surrogate (py ''role'')"
  "\<not> list_ex is_surrogate (py ''content'')"
  by (simp_all add: py_def is_surrogate_def)

lemma utf8_encodable_dump_document:
  "utf8_encodable (dump_document x) \<longleftrightarrow>
     (\<forall>c \<in> set x. utf8_encodable (cid c) \<and> utf8_encodable (title c) \<and>
        (\<forall>m \<in> set (messages c). utf8_encodable (role m) \<and> utf8_encodable (content m)))"
  by (auto simp: dump_document_def dump_record_def asdict_def keys_encodable list_all_iff)

text \<open>
  Claim C1, as stated: the round trip holds for arbitrary strings. At a conversation
  whose title is the one character \<open>U+D800\<close>, a lone surrogate, the encoder of the file
  raises during the dump, \<open>save_conversations\<close> prints the error and leaves an incomplete
  file, and \<open>load_conversations\<close> then returns the empty list.
\<close>

theorem lone_surrogate_not_saved:
  "load_conversations_io Map.empty ReadOk
     (fst (save_conversations_io WriteOk
        [\<lparr>cid = JStr (py ''u1''), title = JStr [55296], messages = []\<rparr>] Missing))
   \<noteq> Inr [\<lparr>cid = JStr (py ''u1''), title = JStr [55296], messages = []\<rparr>]"
  by (simp add: load_conversations_io_def load_conversations_def load_body_def
      save_conversations_io_def save_conversations_def write_result_def
      dump_document_def dump_record_def is_surrogate_def)

text \<open>
  Claim C1, amended. Let every id, title, role and content of \<open>x\<close> be a string with no
  code point from \<open>U+D800\<close> to \<open>U+DFFF\<close>; empty strings, newlines and characters outside
  ASCII are allowed. Then a save of \<open>x\<close> that the operating system lets complete writes
  the whole document and prints nothing, and a load with a read that completes returns
  \<open>x\<close> itself, whatever the standard output is, and prints nothing: the same length, and
  at each position the same id, title and list of messages.
\<close>

theorem save_then_load_roundtrip:
  assumes "\<forall>c \<in> set x.
             (\<exists>i t. cid c = JStr i \<and> title c = JStr t
                \<and> (\<forall>k \<in> set i. k < 55296 \<or> 57343 < k)
                \<and> (\<forall>k \<in> set t. k < 55296 \<or> 57343 < k))
             \<and> (\<forall>m \<in> set (messages c).
                  \<exists>ro co. role m = JStr ro \<and> content m = JStr co
                    \<and> (\<forall>k \<in> set ro. k < 55296 \<or> 57343 < k)
                    \<and> (\<forall>k \<in> set co. k < 55296 \<or> 57343 < k))"
  shows "save_conversations_io WriteOk x f = (Document (dump_document x), [])
         \<and> load_conversations ReadOk (fst (save_conversations_io WriteOk x f)) = (x, [])
         \<and> load_conversations_io out ReadOk (fst (save_conversations_io WriteOk x f)) = Inr x"
proof -
  have "utf8_encodable (dump_document x)"
    unfolding utf8_encodable_dump_document
  proof (intro ballI conjI)
    fix c assume c: "c \<in> set x"
    with assms obtain i t where "cid c = JStr i" "title c = JStr t"
      "\<forall>k \<in> set i. k < 55296 \<or> 57343 < k" "\<forall>k \<in> set t. k < 55296 \<or> 57343 < k"
      by blast
    then show "utf8_encodable (cid c)" "utf8_encodable (title c)"
      by (auto simp: list_ex_iff is_surrogate_def)
    fix m assume "m \<in> set (messages c)"
    with assms c obtain ro co where "role m = JStr ro" "content m = JStr co"
      "\<forall>k \<in> set ro. k < 55296 \<or> 57343 < k" "\<forall>k \<in> set co. k < 55296 \<or> 57343 < k"
      by blast
    then show "utf8_encodable (role m)" "utf8_encodable (content m)"
      by (auto simp: list_ex_iff is_surrogate_def)
  qed
  then have w: "save_conversations_io WriteOk x f = save_conversations WriteOk x f"
    by (simp add: save_conversations_io_def write_result_def)
  have l: "load_conversations ReadOk (fst (save_conversations WriteOk x f)) = (x, [])"
    by (rule load_after_complete_save)
  show ?thesis
    by (simp add: w l load_conversations_io_cases(1) [OF l]) (simp add: save_conversations_def)
qed

text \<open>
  The round trip at a conversation with an empty id, a title holding a newline and
  characters outside ASCII, and a message whose content has two lines.
\<close>

theorem save_then_load_roundtrip_witness:
  "save_conversations_io WriteOk
       [\<lparr>cid = JStr [], title = JStr [10, 233, 128512],
          messages = [\<lparr>role = JStr (py ''user''), content = JStr [104, 10, 105]\<rparr>]\<rparr>] Missing
     = (Document (JArr
          [JObj [(py ''id'', JStr []), (py ''title'', JStr [10, 233, 128512]),
                 (py ''messages'',
                  JArr [JObj [(py ''role'', JStr (py ''user'')),
                              (py ''content'', JStr [104, 10, 105])]])]]), [])
   \<and> load_conversations_io Map.empty ReadOk
       (fst (save_conversations_io WriteOk
          [\<lparr>cid = JStr [], title = JStr [10, 233, 128512],
          messages = [\<lparr>role = JStr (py ''user''), content = JStr [104, 10, 105]\<rparr>]\<rparr>] Missing))
     = Inr [\<lparr>cid = JStr [], title = JStr [10, 233, 128512],
          messages = [\<lparr>role = JStr (py ''user''), content = JStr [104, 10, 105]\<rparr>]\<rparr>]"
proof -
  have h: "\<forall>c \<in> set [\<lparr>cid = JStr [], title = JStr [10, 233, 128512],
          messages = [\<lparr>role = JStr (py ''user''), content = JStr [104, 10, 105]\<rparr>]\<rparr>].
             (\<exists>i t. cid c = JStr i \<and> title c = JStr t
                \<and> (\<forall>k \<in> set i. k < 55296 \<or> 57343 < k)
                \<and> (\<forall>k \<in> set t. k < 55296 \<or> 57343 < k))
             \<and> (\<forall>m \<in> set (messages c).
                  \<exists>ro co. role m = JStr ro \<and> content m = JStr co
                    \<and> (\<forall>k \<in> set ro. k < 55296 \<or> 57343 < k)
                    \<and> (\<forall>k \<in> set co. k < 55296 \<or> 57343 < k))"
    by (simp add: py_def)
  have d: "dump_document [\<lparr>cid = JStr [], title = JStr [10, 233, 128512],
          messages = [\<lparr>role = JStr (py ''user''), content = JStr [104, 10, 105]\<rparr>]\<rparr>]
     = JArr [JObj [(py ''id'', JStr []), (py ''title'', JStr [10, 233, 128512]),
                 (py ''messages'',
                  JArr [JObj [(py ''role'', JStr (py ''user'')),
                              (py ''content'', JStr [104, 10, 105])]])]]"
    by (simp add: dump_document_def dump_record_def asdict_def)
  note r = save_then_load_roundtrip [OF h, of Missing Map.empty]
  from r have a: "save_conversations_io WriteOk
       [\<lparr>cid = JStr [], title = JStr [10, 233, 128512],
          messages = [\<lparr>role = JStr (py ''user''), content = JStr [104, 10, 105]\<rparr>]\<rparr>] Missing
     = (Document (dump_document [\<lparr>cid = JStr [], title = JStr [10, 233, 128512],
          messages = [\<lparr>role = JStr (py ''user''), content = JStr [104, 10, 105]\<rparr>]\<rparr>]), [])"
    by (rule conjunct1)
  from r have b: "load_conversations_io Map.empty ReadOk
       (fst (save_conversations_io WriteOk
          [\<lparr>cid = JStr [], title = JStr [10, 233, 128512],
          messages = [\<lparr>role = JStr (py ''user''), content = JStr [104, 10, 105]\<rparr>]\<rparr>] Missing))
     = Inr [\<lparr>cid = JStr [], title = JStr [10, 233, 128512],
          messages = [\<lparr>role = JStr (py ''user''), content = JStr [104, 10, 105]\<rparr>]\<rparr>]"
    by blast
  show ?thesis using a [unfolded d] b by (intro conjI)
qed




text \<open>
  Claim C8, as stated: a write interrupted partway leaves either the old document or the
  complete new one. The code opens the data file itself in mode \<open>"w"\<close>, which empties
  it, and streams the new document into it; a write cut short leaves neither.
\<close>

theorem interrupted_save_corrupts:
  "fst (save_conversations (DumpRaises (Raised (py ''disk full''))) [] (Document (JArr [JObj []])))
     \<notin> {Document (JArr [JObj []]), Document (dump_document [])}"
  by (simp add: save_conversations_def)

text \<open>
  Claim C8, amended. \<open>save_conversations\<close> rewrites the data file in place. A write that
  completes leaves the complete new document, which loads back as the list saved. When
  \<open>open\<close> raises, the file is as before and the fault is printed. When the write is cut
  short after \<open>open\<close>, the fault is printed and swallowed, the old content is gone and the
  file holds an incomplete document, from which \<open>load_conversations\<close> returns the empty
  list.
\<close>

theorem save_in_place:
  "fst (save_conversations WriteOk convos f) = Document (dump_document convos)
   \<and> load_conversations ReadOk (fst (save_conversations WriteOk convos f)) = (convos, [])
   \<and> save_conversations (OpenRaises e) convos f = (f, [ErrorSaving e])
   \<and> save_conversations (DumpRaises e) convos f = (Invalid, [ErrorSaving e])
   \<and> load_conversations ReadOk (fst (save_conversations (DumpRaises e) convos f))
       = ([], [ErrorLoading JSONDecodeError])"
  by (simp add: load_after_complete_save)
     (simp add: save_conversations_def load_conversations_def load_body_def)




section \<open>Properties of the response normalizer\<close>

lemma collect_chunks_raises: "\<exists>e'. collect_chunks xs (Some e) chunks = Inl e'"
proof (induction xs arbitrary: chunks)
  case Nil
  show ?case by simp
next
  case (Cons c cs)
  show ?case
  proof (cases "chunk_value c")
    case (Inl e') then show ?thesis by simp
  next
    case (Inr v) with Cons [of "chunks @ [v]"] show ?thesis by simp
  qed
qed

lemma py_join_strs: "py_join (map PStr ss) = Inr (concat ss)"
  by (induction ss) simp_all

lemma collect_chunks_strs:
  "list_all2 (\<lambda>c s. chunk_value c = Inr (PStr s)) xs ss \<Longrightarrow>
   collect_chunks xs None chunks = Inr (chunks @ map PStr ss)"
  by (induction xs ss arbitrary: chunks rule: list_all2_induct) simp_all

lemma extract_str_chunks:
  "list_all2 (\<lambda>c s. chunk_value c = Inr (PStr s)) xs ss \<Longrightarrow>
   extract_response_content (PObj NoAttr (Yields xs None) r) = concat ss"
  using collect_chunks_strs [of xs ss "[]"]
  by (simp add: extract_response_content_def py_join_strs)

text \<open>
  Claim C3, as stated: for an iterable response that is no string and has no \<open>content\<close>,
  the result is the concatenation of \<open>extract_response_content\<close> of each chunk, a chunk
  that is itself an iterable being flattened. At the list \<open>[['a', 'b']]\<close> the code
  returns \<open>str(['a', 'b'])\<close>, the text \<open>['a', 'b']\<close>, and not \<open>ab\<close>: line 152 appends
  \<open>str(chunk)\<close> for every chunk that is no string and has no \<open>content\<close>.
\<close>

theorem nested_chunk_not_flattened:
  "extract_response_content
     (PObj NoAttr
        (Yields [PObj NoAttr (Yields [PStr (py ''a''), PStr (py ''b'')] None)
                   (Inr [91, 39, 97, 39, 44, 32, 39, 98, 39, 93])] None)
        (Inr [91, 91, 39, 97, 39, 44, 32, 39, 98, 39, 93, 93]))
   \<noteq> concat (map extract_response_content
        [PObj NoAttr (Yields [PStr (py ''a''), PStr (py ''b'')] None) (Inr [91, 39, 97, 39, 44, 32, 39, 98, 39, 93])])"
  by (simp add: extract_response_content_def py_def)

text \<open>
  Claim C3, amended. For an iterable response that is no string and has no \<open>content\<close>,
  each chunk is normalized once, with no recursion: a string chunk gives itself, a chunk
  whose \<open>content\<close> attribute is a string gives that string, and every other chunk on
  which \<open>str(...)\<close> returns gives \<open>str(chunk)\<close>, whether it is iterable or not. When the
  iteration ends without raising, the result is the concatenation of these strings in
  arrival order. In particular a chunk that is itself an iterable of chunks is
  stringified, not flattened.
\<close>

theorem chunks_classified_one_level:
  "(list_all2 (\<lambda>c s. c = PStr s
                 \<or> (\<exists>it r'. c = PObj (HasAttr (PStr s)) it r')
                 \<or> (\<exists>it. c = PObj NoAttr it (Inr s))) xs ss \<longrightarrow>
      extract_response_content (PObj NoAttr (Yields xs None) r) = concat ss)
   \<and> extract_response_content
        (PObj NoAttr (Yields [PObj NoAttr (Yields ys fin') (Inr s)] None) r) = s"
proof (intro conjI impI)
  assume "list_all2 (\<lambda>c s. c = PStr s
                 \<or> (\<exists>it r'. c = PObj (HasAttr (PStr s)) it r')
                 \<or> (\<exists>it. c = PObj NoAttr it (Inr s))) xs ss"
  then have "list_all2 (\<lambda>c s. chunk_value c = Inr (PStr s)) xs ss"
  proof (rule list_all2_mono)
    fix c s
    assume "c = PStr s \<or> (\<exists>it r'. c = PObj (HasAttr (PStr s)) it r')
              \<or> (\<exists>it. c = PObj NoAttr it (Inr s))"
    then show "chunk_value c = Inr (PStr s)" by auto
  qed
  then show "extract_response_content (PObj NoAttr (Yields xs None) r) = concat ss"
    by (rule extract_str_chunks)
next
  show "extract_response_content
        (PObj NoAttr (Yields [PObj NoAttr (Yields ys fin') (Inr s)] None) r) = s"
    by (simp add: extract_response_content_def)
qed

text \<open>
  The chunks \<open>'a'\<close>, an object with \<open>content = 'b'\<close>, the list \<open>['c', 'd']\<close> and the number
  \<open>7\<close> give \<open>ab['c', 'd']7\<close>.
\<close>

theorem chunks_classified_one_level_witness:
  "extract_response_content
        (PObj NoAttr
          (Yields [PStr (py ''a''),
      PObj (HasAttr (PStr (py ''b''))) NotIterable (Inr (py ''obj'')),
      PObj NoAttr (Yields [PStr (py ''c''), PStr (py ''d'')] None) (Inr [91, 39, 99, 39, 44, 32, 39, 100, 39, 93]),
      PObj NoAttr NotIterable (Inr (py ''7''))]
             None)
          (Inr (py ''list'')))
       = py ''ab'' @ [91, 39, 99, 39, 44, 32, 39, 100, 39, 93] @ py ''7''"
proof -
  have h1: "list_all2 (\<lambda>c s. c = PStr s
                 \<or> (\<exists>it r'. c = PObj (HasAttr (PStr s)) it r')
                 \<or> (\<exists>it. c = PObj NoAttr it (Inr s)))
     [PStr (py ''a''),
      PObj (HasAttr (PStr (py ''b''))) NotIterable (Inr (py ''obj'')),
      PObj NoAttr (Yields [PStr (py ''c''), PStr (py ''d'')] None) (Inr [91, 39, 99, 39, 44, 32, 39, 100, 39, 93]),
      PObj NoAttr NotIterable (Inr (py ''7''))]
     [py ''a'', py ''b'', [91, 39, 99, 39, 44, 32, 39, 100, 39, 93], py ''7'']"
    by simp
  have e: "concat [py ''a'', py ''b'', [91, 39, 99, 39, 44, 32, 39, 100, 39, 93], py ''7'']
           = py ''ab'' @ [91, 39, 99, 39, 44, 32, 39, 100, 39, 93] @ py ''7''"
    by (simp add: py_def)
  show ?thesis
    using h1 e
      chunks_classified_one_level
        [where xs = "[PStr (py ''a''),
      PObj (HasAttr (PStr (py ''b''))) NotIterable (Inr (py ''obj'')),
      PObj NoAttr (Yields [PStr (py ''c''), PStr (py ''d'')] None) (Inr [91, 39, 99, 39, 44, 32, 39, 100, 39, 93]),
      PObj NoAttr NotIterable (Inr (py ''7''))]"
           and ss = "[py ''a'', py ''b'', [91, 39, 99, 39, 44, 32, 39, 100, 39, 93], py ''7'']"
           and r = "Inr (py ''list'')"]
    by simp
qed

text \<open>
  Claim C4. \<open>extract_response_content\<close> always returns: its result is either what the
  body of the \<open>try\<close> returned or the placeholder \<open>[Error: Could not parse response]\<close>.
  In particular an iterable that raises during the iteration, after any number of
  chunks, and an object whose \<open>content\<close> attribute raises when read, give the placeholder.
\<close>

theorem extract_never_raises:
  "(extract_response_content r = parse_error \<or> extract_body r = Inr (extract_response_content r))
   \<and> extract_response_content (PObj NoAttr (Yields xs (Some e)) rp) = parse_error
   \<and> extract_response_content (PObj (AttrRaises e) it rp) = parse_error"
proof (intro conjI)
  show "extract_response_content r = parse_error \<or> extract_body r = Inr (extract_response_content r)"
    by (cases "extract_body r") (simp_all add: extract_response_content_def)
next
  from collect_chunks_raises [of xs e "[]"]
  show "extract_response_content (PObj NoAttr (Yields xs (Some e)) rp) = parse_error"
    by (auto simp: extract_response_content_def)
next
  show "extract_response_content (PObj (AttrRaises e) it rp) = parse_error"
    by (simp add: extract_response_content_def)
qed

theorem extract_never_raises_witness:
  "extract_response_content
     (PObj NoAttr (Yields [PStr (py ''a'')] (Some (Raised (py ''boom'')))) (Inr (py ''gen'')))
   = py ''[Error: Could not parse response]''"
  using extract_never_raises
    [of _ "[PStr (py ''a'')]" "Raised (py ''boom'')" "Inr (py ''gen'')"]
  by (simp add: parse_error_def)

text \<open>
  Claim C9. For every string \<open>s\<close>, \<open>extract_response_content\<close> returns \<open>s\<close> itself.
\<close>

theorem extract_str_unchanged: "extract_response_content (PStr s) = s"
  by (simp add: extract_response_content_def)

theorem extract_str_unchanged_witness:
  "extract_response_content (PStr [32, 104, 105, 10, 32]) = [32, 104, 105, 10, 32]"
  using extract_str_unchanged [of "[32, 104, 105, 10, 32]"] by simp

section \<open>Properties of the application\<close>

lemma save_keeps:
  "conversations (save ev st) = conversations st"
  "selected_index (save ev st) = selected_index st"
  "input_value (save ev st) = input_value st"
  "model_value (save ev st) = model_value st"
  "streaming (save ev st) = streaming st"
  "provider_calls (save ev st) = provider_calls st"
  "save_calls (save ev st) = save_calls st @ [conversations st]"
  by (simp_all add: save_def split: prod.splits)

lemma save_file:
  "disk ev (length (save_calls st)) = WriteOk \<Longrightarrow>
   utf8_encodable (dump_document (conversations st)) \<Longrightarrow>
   data_file (save ev st) = Document (dump_document (conversations st))"
  by (simp add: save_def save_conversations_io_def write_result_def save_conversations_def)

lemma append_message_keeps:
  "selected_index (append_message m st) = selected_index st"
  "input_value (append_message m st) = input_value st"
  "model_value (append_message m st) = model_value st"
  "streaming (append_message m st) = streaming st"
  "provider_calls (append_message m st) = provider_calls st"
  "save_calls (append_message m st) = save_calls st"
  "data_file (append_message m st) = data_file st"
  "length (conversations (append_message m st)) = length (conversations st)"
  by (simp_all add: append_message_def Let_def)

lemma append_message_conversations:
  "conversations (append_message m st) =
     (conversations st)[selected_index st :=
        (conversations st ! selected_index st)
          \<lparr>messages := messages (conversations st ! selected_index st) @ [m]\<rparr>]"
  by (simp add: append_message_def Let_def)



lemma non_streaming_call_keeps:
  "conversations (snd (non_streaming_call ev model msgs acc st)) = conversations st"
  "selected_index (snd (non_streaming_call ev model msgs acc st)) = selected_index st"
  "save_calls (snd (non_streaming_call ev model msgs acc st)) = save_calls st"
  "data_file (snd (non_streaming_call ev model msgs acc st)) = data_file st"
  "provider_calls (snd (non_streaming_call ev model msgs acc st)) = provider_calls st @ [(model, msgs, False)]"
  by (simp_all add: non_streaming_call_def)

lemma attempt_keeps:
  "conversations (snd (attempt ev model msgs st)) = conversations st"
  "selected_index (snd (attempt ev model msgs st)) = selected_index st"
  "save_calls (snd (attempt ev model msgs st)) = save_calls st"
  "data_file (snd (attempt ev model msgs st)) = data_file st"
  by (simp_all add: attempt_def streaming_call_def non_streaming_call_def
      split: prod.splits option.splits sum.splits)

lemma payload_append:
  "payload (c\<lparr>messages := messages c @ [m]\<rparr>) = payload c @ [(role m, content m)]"
  by (simp add: payload_def)

lemma stream_response_effect:
  assumes valid: "selected_index st < length (conversations st)"
    and model: "model = (case model_value st of
                           None \<Rightarrow> DEFAULT_MODEL
                         | Some v \<Rightarrow> if v = [] then DEFAULT_MODEL else v)"
    and msgs: "msgs = payload (conversations st ! selected_index st)
                      @ [(JStr (py ''user''), JStr prompt)]"
    and st1: "st1 = save ev (append_message \<lparr>role = JStr (py ''user''), content = JStr prompt\<rparr> st)"
    and tx: "text = (case fst (attempt ev model msgs st1) of
                         Inr t \<Rightarrow> t
                       | Inl (acc, msg) \<Rightarrow> acc @ error_text model msg)"
  shows "stream_response ev prompt st =
           Inr (save ev (append_message \<lparr>role = JStr (py ''assistant''), content = JStr text\<rparr>
                  (snd (attempt ev model msgs st1))))"
proof -
  have m1: "model_value st1 = model_value st"
    by (simp add: st1 save_keeps append_message_keeps)
  have i1: "selected_index st1 = selected_index st"
    by (simp add: st1 save_keeps append_message_keeps)
  have "conversations st1 ! selected_index st1 =
          (conversations st ! selected_index st)
            \<lparr>messages := messages (conversations st ! selected_index st)
                          @ [\<lparr>role = JStr (py ''user''), content = JStr prompt\<rparr>]\<rparr>"
    using valid by (simp add: st1 save_keeps append_message_keeps append_message_conversations)
  then have p1: "payload (conversations st1 ! selected_index st1) = msgs"
    by (simp add: msgs payload_append)
  show ?thesis
  proof (cases "attempt ev model msgs st1")
    case (Pair res st2)
    show ?thesis
    proof (cases res)
      case (Inl am)
      obtain acc msg where am: "am = (acc, msg)" by (cases am)
      show ?thesis
        using valid Pair Inl am
        by (simp add: stream_response_def Let_def st1 [symmetric] m1 model [symmetric] p1 tx)
    next
      case (Inr t)
      show ?thesis
        using valid Pair Inr
        by (simp add: stream_response_def Let_def st1 [symmetric] m1 model [symmetric] p1 tx)
    qed
  qed
qed

lemma stream_response_state:
  assumes valid: "selected_index st < length (conversations st)"
    and model: "model = (case model_value st of
                           None \<Rightarrow> DEFAULT_MODEL
                         | Some v \<Rightarrow> if v = [] then DEFAULT_MODEL else v)"
    and msgs: "msgs = payload (conversations st ! selected_index st)
                      @ [(JStr (py ''user''), JStr prompt)]"
    and st1: "st1 = save ev (append_message \<lparr>role = JStr (py ''user''), content = JStr prompt\<rparr> st)"
    and tx: "text = (case fst (attempt ev model msgs st1) of
                         Inr t \<Rightarrow> t
                       | Inl (acc, msg) \<Rightarrow> acc @ error_text model msg)"
    and c: "c = conversations st ! selected_index st"
  shows "\<exists>st'. stream_response ev prompt st = Inr st'
           \<and> conversations st' =
               (conversations st)[selected_index st :=
                  c\<lparr>messages := messages c @
                       [\<lparr>role = JStr (py ''user''), content = JStr prompt\<rparr>,
                        \<lparr>role = JStr (py ''assistant''), content = JStr text\<rparr>]\<rparr>]
           \<and> selected_index st' = selected_index st
           \<and> save_calls st' =
               save_calls st @
                 [(conversations st)[selected_index st :=
                    c\<lparr>messages := messages c @
                         [\<lparr>role = JStr (py ''user''), content = JStr prompt\<rparr>]\<rparr>],
                  conversations st']
           \<and> provider_calls st' = provider_calls (snd (attempt ev model msgs st1))
           \<and> (disk ev (Suc (length (save_calls st))) = WriteOk
                \<and> utf8_encodable (dump_document (conversations st')) \<longrightarrow>
                data_file st' = Document (dump_document (conversations st')))"
proof -
  let ?U = "\<lparr>role = JStr (py ''user''), content = JStr prompt\<rparr>"
  let ?A = "\<lparr>role = JStr (py ''assistant''), content = JStr text\<rparr>"
  let ?st2 = "snd (attempt ev model msgs st1)"
  let ?st3 = "append_message ?A ?st2"
  have eff: "stream_response ev prompt st = Inr (save ev ?st3)"
    by (rule stream_response_effect [OF valid model msgs st1 tx])
  have c1: "conversations st1 = (conversations st)[selected_index st := c\<lparr>messages := messages c @ [?U]\<rparr>]"
    by (simp add: st1 save_keeps append_message_conversations c)
  have i1: "selected_index st1 = selected_index st"
    by (simp add: st1 save_keeps append_message_keeps)
  have s1: "save_calls st1 = save_calls st @ [(conversations st)[selected_index st := c\<lparr>messages := messages c @ [?U]\<rparr>]]"
    by (simp add: st1 save_keeps append_message_keeps append_message_conversations c)
  have c2: "conversations ?st2 = conversations st1" and i2: "selected_index ?st2 = selected_index st1"
    and s2: "save_calls ?st2 = save_calls st1"
    by (simp_all add: attempt_keeps)
  have c3: "conversations ?st3 =
      (conversations st)[selected_index st := c\<lparr>messages := messages c @ [?U, ?A]\<rparr>]"
    using valid by (simp add: append_message_conversations c2 i2 c1 i1)
  have s3: "save_calls ?st3 = save_calls st1"
    by (simp add: append_message_keeps s2)
  have f: "disk ev (Suc (length (save_calls st))) = WriteOk
        \<and> utf8_encodable (dump_document (conversations (save ev ?st3))) \<longrightarrow>
        data_file (save ev ?st3) = Document (dump_document (conversations (save ev ?st3)))"
  proof
    assume a: "disk ev (Suc (length (save_calls st))) = WriteOk
        \<and> utf8_encodable (dump_document (conversations (save ev ?st3)))"
    then have "disk ev (length (save_calls ?st3)) = WriteOk" by (simp add: s3 s1)
    moreover from a have "utf8_encodable (dump_document (conversations ?st3))"
      by (simp add: save_keeps)
    ultimately show "data_file (save ev ?st3) = Document (dump_document (conversations (save ev ?st3)))"
      by (simp add: save_file save_keeps)
  qed
  have "conversations (save ev ?st3) =
          (conversations st)[selected_index st := c\<lparr>messages := messages c @ [?U, ?A]\<rparr>]"
    by (simp add: save_keeps c3)
  moreover have "selected_index (save ev ?st3) = selected_index st"
    by (simp add: save_keeps append_message_keeps i2 i1)
  moreover have "save_calls (save ev ?st3) =
      save_calls st @ [(conversations st)[selected_index st := c\<lparr>messages := messages c @ [?U]\<rparr>],
                       conversations (save ev ?st3)]"
    by (simp add: save_keeps s3 s1)
  moreover have "provider_calls (save ev ?st3) = provider_calls ?st2"
    by (simp add: save_keeps append_message_keeps)
  ultimately show ?thesis using eff f by blast
qed





lemma stream_response_conversations:
  assumes valid: "selected_index st < length (conversations st)"
  shows "\<exists>st' reply. stream_response ev prompt st = Inr st'
           \<and> selected_index st' = selected_index st
           \<and> conversations st' =
               (conversations st)[selected_index st :=
                  (conversations st ! selected_index st)
                    \<lparr>messages := messages (conversations st ! selected_index st) @
                       [\<lparr>role = JStr (py ''user''), content = JStr prompt\<rparr>,
                        \<lparr>role = JStr (py ''assistant''), content = JStr reply\<rparr>]\<rparr>]"
  using stream_response_state [OF valid refl refl refl refl refl, of ev prompt] by blast

lemma on_send_click_state:
  assumes valid: "selected_index st < length (conversations st)"
    and t: "t = strip (input_value st)"
    and nonempty: "t \<noteq> []"
    and c: "c = conversations st ! selected_index st"
  shows "\<exists>st' reply. on_send_click ev st = Inr st'
           \<and> selected_index st' = selected_index st
           \<and> conversations st' =
               (conversations st)[selected_index st :=
                  c\<lparr>title := (if messages c = []
                               then JStr (if length t > 30 then take 30 t @ py ''...'' else t)
                               else title c),
                    messages := messages c @
                       [\<lparr>role = JStr (py ''user''), content = JStr t\<rparr>,
                        \<lparr>role = JStr (py ''assistant''), content = JStr reply\<rparr>]\<rparr>]"
proof (cases "messages c = []")
  case True
  let ?st1 = "st\<lparr>conversations :=
                 (conversations st)[selected_index st :=
                    c\<lparr>title := JStr (if length t > 30 then take 30 t @ py ''...'' else t)\<rparr>],
               input_value := []\<rparr>"
  have v: "selected_index ?st1 < length (conversations ?st1)" using valid by simp
  have o: "on_send_click ev st = stream_response ev t ?st1"
    using valid nonempty True by (simp add: on_send_click_def Let_def t [symmetric] c [symmetric])
  from stream_response_conversations [OF v, of ev t] obtain st' reply where
    "stream_response ev t ?st1 = Inr st'" "selected_index st' = selected_index ?st1"
    "conversations st' =
       (conversations ?st1)[selected_index ?st1 :=
          (conversations ?st1 ! selected_index ?st1)
            \<lparr>messages := messages (conversations ?st1 ! selected_index ?st1) @
               [\<lparr>role = JStr (py ''user''), content = JStr t\<rparr>,
                \<lparr>role = JStr (py ''assistant''), content = JStr reply\<rparr>]\<rparr>]"
    by blast
  then show ?thesis using valid True o by auto
next
  case False
  let ?st1 = "st\<lparr>input_value := []\<rparr>"
  have v: "selected_index ?st1 < length (conversations ?st1)" using valid by simp
  have o: "on_send_click ev st = stream_response ev t ?st1"
    using valid nonempty False by (simp add: on_send_click_def Let_def t [symmetric] c [symmetric])
  from stream_response_conversations [OF v, of ev t] obtain st' reply where
    "stream_response ev t ?st1 = Inr st'" "selected_index st' = selected_index ?st1"
    "conversations st' =
       (conversations ?st1)[selected_index ?st1 :=
          (conversations ?st1 ! selected_index ?st1)
            \<lparr>messages := messages (conversations ?st1 ! selected_index ?st1) @
               [\<lparr>role = JStr (py ''user''), content = JStr t\<rparr>,
                \<lparr>role = JStr (py ''assistant''), content = JStr reply\<rparr>]\<rparr>]"
    by blast
  then show ?thesis using valid False o c by auto
qed

lemma on_send_click_later:
  assumes valid: "selected_index st < length (conversations st)"
    and nonempty: "messages (conversations st ! selected_index st) \<noteq> []"
    and res: "on_send_click ev st = Inr st'"
  shows "title (conversations st' ! selected_index st) = title (conversations st ! selected_index st)"
proof (cases "strip (input_value st) = []")
  case True
  with res show ?thesis by (simp add: on_send_click_def Let_def)
next
  case False
  from on_send_click_state [OF valid refl False refl, of ev] res nonempty valid
  show ?thesis by auto
qed

lemma DEFAULT_MODEL_nonempty: "DEFAULT_MODEL \<noteq> []"
  by (simp add: DEFAULT_MODEL_def py_def)






text \<open>
  Claim C6. Let a conversation be selected and let the text field, stripped, be a
  non-empty text \<open>t\<close>. Then \<open>on_send_click\<close> returns. If the conversation had no message,
  its title becomes \<open>t\<close> itself when \<open>t\<close> has at most 30 characters, and the first 30
  characters of \<open>t\<close> followed by \<open>...\<close> when it has more. If the conversation had a
  message, its title is unchanged. Afterwards the conversation has a message, so that
  any later click, whatever the text field and the collaborators, leaves the title as it
  is.
\<close>

theorem title_from_first_message:
  assumes valid: "selected_index st < length (conversations st)"
    and c: "c = conversations st ! selected_index st"
    and t: "t = strip (input_value st)"
    and nonempty: "t \<noteq> []"
  shows "\<exists>st'. on_send_click ev st = Inr st'
           \<and> (messages c = [] \<and> length t \<le> 30 \<longrightarrow>
                title (conversations st' ! selected_index st) = JStr t)
           \<and> (messages c = [] \<and> length t > 30 \<longrightarrow>
                title (conversations st' ! selected_index st) = JStr (take 30 t @ py ''...''))
           \<and> (messages c \<noteq> [] \<longrightarrow>
                title (conversations st' ! selected_index st) = title c)
           \<and> messages (conversations st' ! selected_index st) \<noteq> []
           \<and> selected_index st' = selected_index st
           \<and> (\<forall>ev2 v st''. on_send_click ev2 (st'\<lparr>input_value := v\<rparr>) = Inr st'' \<longrightarrow>
                title (conversations st'' ! selected_index st) =
                title (conversations st' ! selected_index st))"
proof -
  from on_send_click_state [OF valid t nonempty c, of ev] obtain st' reply where
    r: "on_send_click ev st = Inr st'" and i: "selected_index st' = selected_index st"
    and cs: "conversations st' =
               (conversations st)[selected_index st :=
                  c\<lparr>title := (if messages c = []
                               then JStr (if length t > 30 then take 30 t @ py ''...'' else t)
                               else title c),
                    messages := messages c @
                       [\<lparr>role = JStr (py ''user''), content = JStr t\<rparr>,
                        \<lparr>role = JStr (py ''assistant''), content = JStr reply\<rparr>]\<rparr>]"
    by blast
  have n: "messages (conversations st' ! selected_index st) \<noteq> []"
    using valid by (simp add: cs)
  have later: "\<forall>ev2 v st''. on_send_click ev2 (st'\<lparr>input_value := v\<rparr>) = Inr st'' \<longrightarrow>
                title (conversations st'' ! selected_index st) =
                title (conversations st' ! selected_index st)"
  proof (intro allI impI)
    fix ev2 v st''
    assume a: "on_send_click ev2 (st'\<lparr>input_value := v\<rparr>) = Inr st''"
    have v': "selected_index (st'\<lparr>input_value := v\<rparr>) < length (conversations (st'\<lparr>input_value := v\<rparr>))"
      using valid by (simp add: i cs)
    have n': "messages (conversations (st'\<lparr>input_value := v\<rparr>) ! selected_index (st'\<lparr>input_value := v\<rparr>)) \<noteq> []"
      using n by (simp add: i)
    from on_send_click_later [OF v' n' a]
    show "title (conversations st'' ! selected_index st) = title (conversations st' ! selected_index st)"
      by (simp add: i)
  qed
  have "messages c = [] \<and> length t \<le> 30 \<longrightarrow> title (conversations st' ! selected_index st) = JStr t"
    using valid by (simp add: cs)
  moreover have "messages c = [] \<and> length t > 30 \<longrightarrow>
      title (conversations st' ! selected_index st) = JStr (take 30 t @ py ''...'')"
    using valid by (simp add: cs)
  moreover have "messages c \<noteq> [] \<longrightarrow> title (conversations st' ! selected_index st) = title c"
    using valid by (simp add: cs)
  ultimately show ?thesis using r n i later by blast
qed

theorem title_from_first_message_witness:
  "strip [32, 104, 105, 10] = py ''hi''
   \<and> (\<exists>st'. on_send_click (\<lparr>provider = (\<lambda>m ms b. Inl (py ''down'')), disk = (\<lambda>n. WriteOk), stdout = Map.empty\<rparr>)
         (\<lparr>conversations = [\<lparr>cid = JStr (py ''u1''), title = JStr (py ''New Chat''), messages = []\<rparr>],
          selected_index = 0, input_value = [32, 104, 105, 10], model_value = Some DEFAULT_MODEL,
          streaming = True, data_file = Missing, printed = [], save_calls = [],
          provider_calls = []\<rparr>) = Inr st'
         \<and> title (conversations st' ! 0) = JStr (py ''hi''))
   \<and> length (strip (py ''The quick brown fox jumps over the lazy dog'')) > 30
   \<and> (\<exists>st'. on_send_click (\<lparr>provider = (\<lambda>m ms b. Inl (py ''down'')), disk = (\<lambda>n. WriteOk), stdout = Map.empty\<rparr>)
         (\<lparr>conversations = [\<lparr>cid = JStr (py ''u1''), title = JStr (py ''New Chat''), messages = []\<rparr>],
          selected_index = 0, input_value = py ''The quick brown fox jumps over the lazy dog'', model_value = Some DEFAULT_MODEL,
          streaming = True, data_file = Missing, printed = [], save_calls = [],
          provider_calls = []\<rparr>) = Inr st'
         \<and> title (conversations st' ! 0) = JStr (py ''The quick brown fox jumps over...''))
   \<and> (\<exists>st'. on_send_click (\<lparr>provider = (\<lambda>m ms b. Inl (py ''down'')), disk = (\<lambda>n. WriteOk), stdout = Map.empty\<rparr>)
         (\<lparr>conversations = [\<lparr>cid = JStr (py ''u1''), title = JStr (py ''Old title''), messages = [\<lparr>role = JStr (py ''user''), content = JStr (py ''x'')\<rparr>]\<rparr>],
          selected_index = 0, input_value = [32, 104, 105, 10], model_value = Some DEFAULT_MODEL,
          streaming = True, data_file = Missing, printed = [], save_calls = [],
          provider_calls = []\<rparr>) = Inr st'
         \<and> title (conversations st' ! 0) = JStr (py ''Old title''))"
proof -
  have s1: "strip [32, 104, 105, 10] = py ''hi''"
    by (simp add: strip_def is_space_def py_def)
  have s2: "strip (py ''The quick brown fox jumps over the lazy dog'') = py ''The quick brown fox jumps over the lazy dog''"
    by (simp add: strip_def is_space_def py_def)
  have l2: "length (py ''The quick brown fox jumps over the lazy dog'') > 30" by (simp add: py_def)
  have t2: "take 30 (py ''The quick brown fox jumps over the lazy dog'') @ py ''...'' = py ''The quick brown fox jumps over...''"
    by (simp add: py_def)
  have l1: "length (py ''hi'') \<le> 30" by (simp add: py_def)
  have l2': "\<not> length (py ''The quick brown fox jumps over the lazy dog'') \<le> 30" by (simp add: py_def)
  have n1: "py ''hi'' \<noteq> []" by (simp add: py_def)
  have n2: "py ''The quick brown fox jumps over the lazy dog'' \<noteq> []" by (simp add: py_def)
  have w1: "\<exists>st'. on_send_click (\<lparr>provider = (\<lambda>m ms b. Inl (py ''down'')), disk = (\<lambda>n. WriteOk), stdout = Map.empty\<rparr>)
         (\<lparr>conversations = [\<lparr>cid = JStr (py ''u1''), title = JStr (py ''New Chat''), messages = []\<rparr>],
          selected_index = 0, input_value = [32, 104, 105, 10], model_value = Some DEFAULT_MODEL,
          streaming = True, data_file = Missing, printed = [], save_calls = [],
          provider_calls = []\<rparr>) = Inr st'
         \<and> title (conversations st' ! 0) = JStr (py ''hi'')"
    using title_from_first_message
        [where st = "\<lparr>conversations = [\<lparr>cid = JStr (py ''u1''), title = JStr (py ''New Chat''), messages = []\<rparr>],
          selected_index = 0, input_value = [32, 104, 105, 10], model_value = Some DEFAULT_MODEL,
          streaming = True, data_file = Missing, printed = [], save_calls = [],
          provider_calls = []\<rparr>"
           and ev = "\<lparr>provider = (\<lambda>m ms b. Inl (py ''down'')), disk = (\<lambda>n. WriteOk), stdout = Map.empty\<rparr>", OF _ refl refl]
    by (simp add: s1 n1 l1) blast
  have w2: "\<exists>st'. on_send_click (\<lparr>provider = (\<lambda>m ms b. Inl (py ''down'')), disk = (\<lambda>n. WriteOk), stdout = Map.empty\<rparr>)
         (\<lparr>conversations = [\<lparr>cid = JStr (py ''u1''), title = JStr (py ''New Chat''), messages = []\<rparr>],
          selected_index = 0, input_value = py ''The quick brown fox jumps over the lazy dog'', model_value = Some DEFAULT_MODEL,
          streaming = True, data_file = Missing, printed = [], save_calls = [],
          provider_calls = []\<rparr>) = Inr st'
         \<and> title (conversations st' ! 0) = JStr (py ''The quick brown fox jumps over...'')"
    using title_from_first_message
        [where st = "\<lparr>conversations = [\<lparr>cid = JStr (py ''u1''), title = JStr (py ''New Chat''), messages = []\<rparr>],
          selected_index = 0, input_value = py ''The quick brown fox jumps over the lazy dog'', model_value = Some DEFAULT_MODEL,
          streaming = True, data_file = Missing, printed = [], save_calls = [],
          provider_calls = []\<rparr>"
           and ev = "\<lparr>provider = (\<lambda>m ms b. Inl (py ''down'')), disk = (\<lambda>n. WriteOk), stdout = Map.empty\<rparr>", OF _ refl refl]
    by (simp add: s2 n2 l2 l2' t2) blast
  have w3: "\<exists>st'. on_send_click (\<lparr>provider = (\<lambda>m ms b. Inl (py ''down'')), disk = (\<lambda>n. WriteOk), stdout = Map.empty\<rparr>)
         (\<lparr>conversations = [\<lparr>cid = JStr (py ''u1''), title = JStr (py ''Old title''), messages = [\<lparr>role = JStr (py ''user''), content = JStr (py ''x'')\<rparr>]\<rparr>],
          selected_index = 0, input_value = [32, 104, 105, 10], model_value = Some DEFAULT_MODEL,
          streaming = True, data_file = Missing, printed = [], save_calls = [],
          provider_calls = []\<rparr>) = Inr st'
         \<and> title (conversations st' ! 0) = JStr (py ''Old title'')"
    using title_from_first_message
        [where st = "\<lparr>conversations = [\<lparr>cid = JStr (py ''u1''), title = JStr (py ''Old title''), messages = [\<lparr>role = JStr (py ''user''), content = JStr (py ''x'')\<rparr>]\<rparr>],
          selected_index = 0, input_value = [32, 104, 105, 10], model_value = Some DEFAULT_MODEL,
          streaming = True, data_file = Missing, printed = [], save_calls = [],
          provider_calls = []\<rparr>"
           and ev = "\<lparr>provider = (\<lambda>m ms b. Inl (py ''down'')), disk = (\<lambda>n. WriteOk), stdout = Map.empty\<rparr>", OF _ refl refl]
    by (simp add: s1 n1 l1) blast
  show ?thesis using s1 s2 l2 w1 w2 w3 by simp
qed

end
